theory Spec2Isabelle
  imports Main "HOL-Library.Word"
begin

unbundle bit_operations_syntax

section \<open>Data model of \<open>compiler/codegen/x86/utility_x86.cc\<close>\<close>

text \<open>
  Every \<open>int\<close> of the source (register handles, immediates, displacements, scales) is a
  32-bit machine integer: \<open>+\<close> wraps, \<open>sint\<close> reads the two's complement value that the
  signed comparisons of the source compare.
\<close>

type_synonym cint = "32 word"

text \<open>
  \<open>OpKind\<close>: the operation kinds the file names in its \<open>switch\<close> statements;
  \<open>kOpInvalid\<close> stands for every other member of the enumeration (all of them take the
  \<open>default:\<close> branches).
\<close>

datatype OpKind =
    kOpMov | kOpMvn | kOpCmp | kOpLsl | kOpLsr | kOpAsr | kOpRor | kOpNot
  | kOpAnd | kOpOr | kOpXor | kOpNeg | kOpAdd | kOpAdc | kOpSub | kOpSbc
  | kOpMul | kOpBlx | kOp2Char | kOp2Short | kOp2Byte | kOpInvalid

datatype OpSize =
    kWord | kLong | kSingle | kDouble
  | kUnsignedHalf | kSignedHalf | kUnsignedByte | kSignedByte

text \<open>The opcodes of \<open>X86OpCode\<close> that the modelled functions select.\<close>

datatype X86OpCode =
    kX86Bkpt | kX86Nop
  | kX86MovsdRR | kX86MovssRR | kX86MovdxrRR | kX86MovdrxRR
  | kX86XorpsRR | kX86OrpsRR | kX86PsllqRI
  | kX86Xor32RR | kX86Mov32RI | kX86Mov32RR
  | kX86Neg32R | kX86Not32R | kX86CallR
  | kX86Sal32RI | kX86Shr32RI | kX86Sar32RI
  | kX86Add32RI8 | kX86Add32RI | kX86Or32RI8 | kX86Or32RI
  | kX86Adc32RI8 | kX86Adc32RI | kX86And32RI8 | kX86And32RI
  | kX86Sub32RI8 | kX86Sub32RI | kX86Xor32RI8 | kX86Xor32RI
  | kX86Cmp32RI8 | kX86Cmp32RI | kX86Imul32RRI8 | kX86Imul32RRI
  | kX86Sub32RR | kX86Sbb32RR | kX86Sal32RC | kX86Shr32RC | kX86Sar32RC
  | kX86Cmp32RR | kX86Add32RR | kX86Adc32RR | kX86And32RR | kX86Or32RR
  | kX86Movsx8RR | kX86Movsx16RR | kX86Movzx16RR | kX86Movzx8RR | kX86Imul32RR
  | kX86Lea32RA
  | kX86MovsdRA | kX86MovsdRM | kX86Mov32RA | kX86Mov32RM | kX86MovssRA | kX86MovssRM
  | kX86Movzx16RA | kX86Movzx16RM | kX86Movsx16RA | kX86Movsx16RM
  | kX86Movzx8RA | kX86Movzx8RM | kX86Movsx8RA | kX86Movsx8RM
  | kX86MovsdAR | kX86MovsdMR | kX86Mov32AR | kX86Mov32MR | kX86MovssAR | kX86MovssMR
  | kX86Mov16AR | kX86Mov16MR | kX86Mov8AR | kX86Mov8MR

text \<open>
  An instruction record (\<open>LIR\<close>): the opcode, the operands in the order the constructor
  received them, the source position stamp, the no-op flag and the stack-slot
  annotation (slot index, \<open>is_load\<close>, \<open>is64bit\<close>) that \<open>AnnotateDalvikRegAccess\<close> leaves.
\<close>

record LIR =
  dalvik_offset :: cint
  opcode :: X86OpCode
  operands :: "cint list"
  is_nop :: bool
  reg_access :: "(cint \<times> bool \<times> bool) option"

text \<open>
  The part of the \<open>CompilationUnit\<close> the file touches: the current source position, the
  instruction stream (a \<open>LIR*\<close> into the stream is the position of the record in it), and
  the register allocator's pool of temporaries that are not on loan.
\<close>

type_synonym LIR_ptr = nat

record CompilationUnit =
  current_dalvik_offset :: cint
  lir_insns :: "LIR list"
  free_temps :: "cint list"

text \<open>
  The declarations of \<open>x86_lir.h\<close> and \<open>codegen_x86.h\<close> that the file uses and that are
  not part of the sources at hand. They are parameters of every function below: the
  register-class macros, the pairing function \<open>S2d\<close>, the fixed registers, the
  \<open>INVALID_REG\<close> and \<open>INVALID_SREG\<close> sentinels, the offsets of the two halves of
  a 64-bit value, and the \<open>IS_BINARY_OP\<close> flag of the \<open>EncodingMap\<close> table.
\<close>

record x86_lir_h =
  X86_FPREG :: "cint \<Rightarrow> bool"
  X86_SINGLEREG :: "cint \<Rightarrow> bool"
  X86_DOUBLEREG :: "cint \<Rightarrow> bool"
  S2d :: "cint \<Rightarrow> cint \<Rightarrow> cint"
  rCX :: cint
  rBP :: cint
  rX86_SP :: cint
  r4sib_no_index :: cint
  r5sib_no_base :: cint
  INVALID_REG :: cint
  LOWORD_OFFSET :: cint
  HIWORD_OFFSET :: cint
  INVALID_SREG :: cint
  IS_BINARY_OP :: "X86OpCode \<Rightarrow> bool"

text \<open>
  One instance of these parameters, the IA-32 register numbering with the floating
  registers marked by bit 5 and the doubles by bits 5 and 4. It is used to run the
  model on concrete inputs only; the theorems hold for every instance.
\<close>

definition ia32 :: x86_lir_h where
  "ia32 =
     \<lparr> X86_FPREG = (\<lambda>x. x AND 32 = 32),
       X86_SINGLEREG = (\<lambda>x. x AND 32 = 32 \<and> x AND 48 \<noteq> 48),
       X86_DOUBLEREG = (\<lambda>x. x AND 48 = 48),
       S2d = (\<lambda>x y. x OR 48),
       rCX = 1, rBP = 5, rX86_SP = 4, r4sib_no_index = 4, r5sib_no_base = 5,
       INVALID_REG = 255, LOWORD_OFFSET = 0, HIWORD_OFFSET = 4, INVALID_SREG = - 1,
       IS_BINARY_OP = (\<lambda>op. op = kX86MovsdRR \<or> op = kX86MovssRR \<or>
                              op = kX86MovdxrRR \<or> op = kX86MovdrxRR) \<rparr>"

section \<open>Faults and sequencing\<close>

text \<open>
  The two fault classes of the layer. Both abort the code generation pass, so a
  function of the model returns either a fault or its result with the updated
  compilation unit. \<open>NoFreeTemp\<close> is the allocator's own fault.
\<close>

datatype fault = UnsupportedCombination | InvariantViolation | NoFreeTemp

type_synonym 'a codegen = "CompilationUnit \<Rightarrow> fault + 'a \<times> CompilationUnit"

definition cg_return :: "'a \<Rightarrow> 'a codegen" where
  "cg_return x cu = Inr (x, cu)"

definition cg_bind :: "'a codegen \<Rightarrow> ('a \<Rightarrow> 'b codegen) \<Rightarrow> 'b codegen" where
  "cg_bind m f cu = (case m cu of Inl e \<Rightarrow> Inl e | Inr (x, cu') \<Rightarrow> f x cu')"

definition cg_then :: "'a codegen \<Rightarrow> 'b codegen \<Rightarrow> 'b codegen" where
  "cg_then m n = cg_bind m (\<lambda>_. n)"

text \<open>
  Modelled from the spec: the macros \<open>LOG(FATAL)\<close>, \<open>CHECK\<close>, \<open>DCHECK\<close>, \<open>DCHECK_EQ\<close> and
  \<open>DCHECK_NE\<close> are not defined in the sources at hand. Following the error handling
  design, an unhandled \<open>switch\<close> case is the fatal unsupported-combination fault and an
  assertion whose condition is false is the fatal invariant-violation fault.
\<close>

definition LOG_FATAL :: "'a codegen" where
  "LOG_FATAL cu = Inl UnsupportedCombination"

definition CHECK :: "bool \<Rightarrow> unit codegen" where
  "CHECK b cu = (if b then Inr ((), cu) else Inl InvariantViolation)"

definition DCHECK :: "bool \<Rightarrow> unit codegen" where
  "DCHECK b = CHECK b"

section \<open>External collaborators\<close>

text \<open>
  Modelled from the spec: the instruction-stream builder (\<open>RawLIR\<close>, \<open>AppendLIR\<close>,
  \<open>NewLIR1\<close> .. \<open>NewLIR5\<close> of \<open>codegen_util\<close>) is not part of the sources at hand.
  \<open>RawLIR\<close> builds a record stamped with the given source position; \<open>AppendLIR\<close> appends
  it to the stream of the unit; \<open>NewLIRn\<close> does both and returns the new record.
\<close>

definition RawLIR :: "cint \<Rightarrow> X86OpCode \<Rightarrow> cint list \<Rightarrow> LIR" where
  "RawLIR offset opc ops =
     \<lparr> dalvik_offset = offset, opcode = opc, operands = ops, is_nop = False,
       reg_access = None \<rparr>"

definition AppendLIR :: "LIR \<Rightarrow> LIR_ptr codegen" where
  "AppendLIR lir cu = Inr (length (lir_insns cu), cu\<lparr>lir_insns := lir_insns cu @ [lir]\<rparr>)"

definition NewLIR :: "X86OpCode \<Rightarrow> cint list \<Rightarrow> LIR_ptr codegen" where
  "NewLIR opc ops cu = AppendLIR (RawLIR (current_dalvik_offset cu) opc ops) cu"

definition NewLIR1 :: "X86OpCode \<Rightarrow> cint \<Rightarrow> LIR_ptr codegen" where
  "NewLIR1 opc dest = NewLIR opc [dest]"

definition NewLIR2 :: "X86OpCode \<Rightarrow> cint \<Rightarrow> cint \<Rightarrow> LIR_ptr codegen" where
  "NewLIR2 opc dest src1 = NewLIR opc [dest, src1]"

definition NewLIR3 :: "X86OpCode \<Rightarrow> cint \<Rightarrow> cint \<Rightarrow> cint \<Rightarrow> LIR_ptr codegen" where
  "NewLIR3 opc dest src1 src2 = NewLIR opc [dest, src1, src2]"

definition NewLIR5 ::
  "X86OpCode \<Rightarrow> cint \<Rightarrow> cint \<Rightarrow> cint \<Rightarrow> cint \<Rightarrow> cint \<Rightarrow> LIR_ptr codegen" where
  "NewLIR5 opc dest src1 src2 info1 info2 = NewLIR opc [dest, src1, src2, info1, info2]"

text \<open>
  Modelled from the spec: \<open>AnnotateDalvikRegAccess\<close> is not part of the sources at hand.
  It records the stack slot, the direction and the width on the instruction it is given
  and changes neither its opcode nor its operands.
\<close>

definition AnnotateDalvikRegAccess :: "LIR_ptr \<Rightarrow> cint \<Rightarrow> bool \<Rightarrow> bool \<Rightarrow> unit codegen" where
  "AnnotateDalvikRegAccess lir reg_id is_load is64bit cu =
     Inr ((), cu\<lparr>lir_insns :=
       (lir_insns cu)[lir := (lir_insns cu ! lir)\<lparr>reg_access := Some (reg_id, is_load, is64bit)\<rparr>]\<rparr>)"

text \<open>
  Modelled from the spec: the register allocator's \<open>AllocTemp\<close> and \<open>FreeTemp\<close>
  (\<open>ralloc_util\<close>) are not part of the sources at hand. \<open>AllocTemp\<close> lends the first
  temporary of the pool that is not on loan, and it is a fault when there is none;
  \<open>FreeTemp\<close> returns a temporary to the pool.
\<close>

definition AllocTemp :: "cint codegen" where
  "AllocTemp cu =
     (case free_temps cu of
        [] \<Rightarrow> Inl NoFreeTemp
      | t # ts \<Rightarrow> Inr (t, cu\<lparr>free_temps := ts\<rparr>))"

definition FreeTemp :: "cint \<Rightarrow> unit codegen" where
  "FreeTemp reg cu = Inr ((), cu\<lparr>free_temps := reg # free_temps cu\<rparr>)"

text \<open>The allocator's count of available temporaries.\<close>

definition available_temps :: "CompilationUnit \<Rightarrow> nat" where
  "available_temps cu = length (free_temps cu)"

text \<open>
  Modelled from the spec: \<open>IS_SIMM8\<close> is a macro of \<open>x86_lir.h\<close>: the value fits a signed
  8-bit immediate.
\<close>

definition IS_SIMM8 :: "cint \<Rightarrow> bool" where
  "IS_SIMM8 v = (- 128 \<le> sint v \<and> sint v \<le> 127)"

section \<open>Register copies\<close>

text \<open>
  \<open>OpFpRegCopy\<close> builds the copy and does not insert it: it returns the record itself.
\<close>

definition OpFpRegCopy :: "x86_lir_h \<Rightarrow> cint \<Rightarrow> cint \<Rightarrow> LIR codegen" where
  "OpFpRegCopy h r_dest r_src =
     cg_then (DCHECK (X86_DOUBLEREG h r_dest = X86_DOUBLEREG h r_src))
       (cg_bind
          (if X86_DOUBLEREG h r_dest then cg_return kX86MovsdRR
           else if X86_SINGLEREG h r_dest then
             (if X86_SINGLEREG h r_src then cg_return kX86MovssRR
              else cg_return kX86MovdxrRR)
           else cg_then (DCHECK (X86_SINGLEREG h r_src)) (cg_return kX86MovdrxRR))
          (\<lambda>opc.
             cg_then (DCHECK (IS_BINARY_OP h opc))
               (\<lambda>cu. let res = RawLIR (current_dalvik_offset cu) opc [r_dest, r_src]
                     in Inr (if r_dest = r_src then res\<lparr>is_nop := True\<rparr> else res, cu))))"

text \<open>
  Modelled from the spec: \<open>OpRegCopy\<close> is defined outside the sources at hand. It
  applies the register-class-aware copy selection (\<open>OpFpRegCopy\<close> as soon as one of the
  registers is floating, the 32-bit register move otherwise), marks a self-copy as a
  no-op and appends the record to the stream.
\<close>

definition OpRegCopy :: "x86_lir_h \<Rightarrow> cint \<Rightarrow> cint \<Rightarrow> LIR_ptr codegen" where
  "OpRegCopy h r_dest r_src =
     (if X86_FPREG h r_dest \<or> X86_FPREG h r_src then
        cg_bind (OpFpRegCopy h r_dest r_src) AppendLIR
      else
        (\<lambda>cu. let res = RawLIR (current_dalvik_offset cu) kX86Mov32RR [r_dest, r_src]
              in AppendLIR (if r_src = r_dest then res\<lparr>is_nop := True\<rparr> else res) cu))"

section \<open>Constant Materializer\<close>

definition LoadConstantNoClobber :: "x86_lir_h \<Rightarrow> cint \<Rightarrow> cint \<Rightarrow> LIR_ptr codegen" where
  "LoadConstantNoClobber h r_dest val =
     (let r_dest_save = r_dest in
      if X86_FPREG h r_dest \<and> val = 0 then NewLIR2 kX86XorpsRR r_dest r_dest
      else
        cg_bind
          (if X86_FPREG h r_dest
           then cg_then (DCHECK (X86_SINGLEREG h r_dest)) AllocTemp
           else cg_return r_dest)
          (\<lambda>r_dest.
             cg_bind
               (if val = 0 then NewLIR2 kX86Xor32RR r_dest r_dest
                else NewLIR2 kX86Mov32RI r_dest val)
               (\<lambda>res.
                  cg_then
                    (if X86_FPREG h r_dest_save
                     then cg_then (NewLIR2 kX86MovdxrRR r_dest_save r_dest) (FreeTemp r_dest)
                     else cg_return ())
                    (cg_return res))))"

definition LoadConstantValueWide ::
  "x86_lir_h \<Rightarrow> cint \<Rightarrow> cint \<Rightarrow> cint \<Rightarrow> cint \<Rightarrow> LIR_ptr codegen" where
  "LoadConstantValueWide h r_dest_lo r_dest_hi val_lo val_hi =
     (if X86_FPREG h r_dest_lo then
        cg_then (DCHECK (X86_FPREG h r_dest_hi))
          (if val_lo = 0 \<and> val_hi = 0 then NewLIR2 kX86XorpsRR r_dest_lo r_dest_lo
           else
             cg_bind
               (if val_lo = 0 then NewLIR2 kX86XorpsRR r_dest_lo r_dest_lo
                else LoadConstantNoClobber h r_dest_lo val_lo)
               (\<lambda>res.
                  cg_then
                    (if val_hi \<noteq> 0 then
                       cg_then (LoadConstantNoClobber h r_dest_hi val_hi)
                         (cg_then (NewLIR2 kX86PsllqRI r_dest_hi 32)
                            (cg_then (NewLIR2 kX86OrpsRR r_dest_lo r_dest_hi)
                               (cg_return ())))
                     else cg_return ())
                    (cg_return res)))
      else
        cg_bind (LoadConstantNoClobber h r_dest_lo val_lo)
          (\<lambda>res. cg_then (LoadConstantNoClobber h r_dest_hi val_hi) (cg_return res)))"

section \<open>Opcode Selector\<close>

definition OpReg :: "OpKind \<Rightarrow> cint \<Rightarrow> LIR_ptr codegen" where
  "OpReg op r_dest_src =
     cg_bind
       (case op of
          kOpNeg \<Rightarrow> cg_return kX86Neg32R
        | kOpNot \<Rightarrow> cg_return kX86Not32R
        | kOpBlx \<Rightarrow> cg_return kX86CallR
        | _ \<Rightarrow> LOG_FATAL)
       (\<lambda>opc. NewLIR1 opc r_dest_src)"

text \<open>
  In the two selectors below \<open>finish\<close> is the statement after the \<open>switch\<close>, which
  every case that ends in \<open>break\<close> reaches with the opcode it chose.
\<close>

definition OpRegImm :: "x86_lir_h \<Rightarrow> OpKind \<Rightarrow> cint \<Rightarrow> cint \<Rightarrow> LIR_ptr codegen" where
  "OpRegImm h op r_dest_src1 val =
     (let byte_imm = IS_SIMM8 val;
          finish = (\<lambda>opc. NewLIR2 opc r_dest_src1 val)
      in cg_then (DCHECK (\<not> X86_FPREG h r_dest_src1))
           (case op of
              kOpLsl \<Rightarrow> finish kX86Sal32RI
            | kOpLsr \<Rightarrow> finish kX86Shr32RI
            | kOpAsr \<Rightarrow> finish kX86Sar32RI
            | kOpAdd \<Rightarrow> finish (if byte_imm then kX86Add32RI8 else kX86Add32RI)
            | kOpOr \<Rightarrow> finish (if byte_imm then kX86Or32RI8 else kX86Or32RI)
            | kOpAdc \<Rightarrow> finish (if byte_imm then kX86Adc32RI8 else kX86Adc32RI)
            | kOpAnd \<Rightarrow> finish (if byte_imm then kX86And32RI8 else kX86And32RI)
            | kOpSub \<Rightarrow> finish (if byte_imm then kX86Sub32RI8 else kX86Sub32RI)
            | kOpXor \<Rightarrow> finish (if byte_imm then kX86Xor32RI8 else kX86Xor32RI)
            | kOpCmp \<Rightarrow> finish (if byte_imm then kX86Cmp32RI8 else kX86Cmp32RI)
            | kOpMov \<Rightarrow> LoadConstantNoClobber h r_dest_src1 val
            | kOpMul \<Rightarrow>
                NewLIR3 (if byte_imm then kX86Imul32RRI8 else kX86Imul32RRI)
                  r_dest_src1 r_dest_src1 val
            | _ \<Rightarrow> LOG_FATAL))"

definition OpRegReg :: "x86_lir_h \<Rightarrow> OpKind \<Rightarrow> cint \<Rightarrow> cint \<Rightarrow> LIR_ptr codegen" where
  "OpRegReg h op r_dest_src1 r_src2 =
     (let finish = (\<lambda>opc src2_must_be_cx.
            cg_then (CHECK (\<not> src2_must_be_cx \<or> r_src2 = rCX h))
              (NewLIR2 opc r_dest_src1 r_src2))
      in case op of
           kOpMvn \<Rightarrow> cg_then (OpRegCopy h r_dest_src1 r_src2) (OpReg kOpNot r_dest_src1)
         | kOpNeg \<Rightarrow> cg_then (OpRegCopy h r_dest_src1 r_src2) (OpReg kOpNeg r_dest_src1)
         | kOpSub \<Rightarrow> finish kX86Sub32RR False
         | kOpSbc \<Rightarrow> finish kX86Sbb32RR False
         | kOpLsl \<Rightarrow> finish kX86Sal32RC True
         | kOpLsr \<Rightarrow> finish kX86Shr32RC True
         | kOpAsr \<Rightarrow> finish kX86Sar32RC True
         | kOpMov \<Rightarrow> finish kX86Mov32RR False
         | kOpCmp \<Rightarrow> finish kX86Cmp32RR False
         | kOpAdd \<Rightarrow> finish kX86Add32RR False
         | kOpAdc \<Rightarrow> finish kX86Adc32RR False
         | kOpAnd \<Rightarrow> finish kX86And32RR False
         | kOpOr \<Rightarrow> finish kX86Or32RR False
         | kOpXor \<Rightarrow> finish kX86Xor32RR False
         | kOp2Byte \<Rightarrow>
             (if 4 \<le> sint r_src2 then
                cg_then (NewLIR2 kX86Mov32RR r_dest_src1 r_src2)
                  (cg_then (NewLIR2 kX86Sal32RI r_dest_src1 24)
                     (NewLIR2 kX86Sar32RI r_dest_src1 24))
              else finish kX86Movsx8RR False)
         | kOp2Short \<Rightarrow> finish kX86Movsx16RR False
         | kOp2Char \<Rightarrow> finish kX86Movzx16RR False
         | kOpMul \<Rightarrow> finish kX86Imul32RR False
         | _ \<Rightarrow> LOG_FATAL)"

section \<open>Three-Operand Synthesizer\<close>

definition OpRegRegReg ::
  "x86_lir_h \<Rightarrow> OpKind \<Rightarrow> cint \<Rightarrow> cint \<Rightarrow> cint \<Rightarrow> LIR_ptr codegen" where
  "OpRegRegReg h op r_dest r_src1 r_src2 =
     (if r_dest \<noteq> r_src1 \<and> r_dest \<noteq> r_src2 then
        (if op = kOpAdd then
           (if r_src1 = r_src2 then
              cg_then (OpRegCopy h r_dest r_src1) (OpRegImm h kOpLsl r_dest 1)
            else if r_src1 \<noteq> rBP h then
              NewLIR5 kX86Lea32RA r_dest r_src1 r_src2 0 0
            else
              NewLIR5 kX86Lea32RA r_dest r_src2 r_src1 0 0)
         else
           cg_then (OpRegCopy h r_dest r_src1) (OpRegReg h op r_dest r_src2))
      else if r_dest = r_src1 then OpRegReg h op r_dest r_src2
      else
        (let via_temp =
           cg_bind AllocTemp
             (\<lambda>t_reg.
                cg_then (OpRegCopy h t_reg r_src1)
                  (cg_then (OpRegReg h op t_reg r_src2)
                     (cg_bind (OpRegCopy h r_dest t_reg)
                        (\<lambda>res. cg_then (FreeTemp t_reg) (cg_return res)))))
         in case op of
              kOpSub \<Rightarrow> cg_then (OpReg kOpNeg r_dest) (OpRegReg h kOpAdd r_dest r_src1)
            | kOpSbc \<Rightarrow> via_temp
            | kOpLsl \<Rightarrow> via_temp
            | kOpLsr \<Rightarrow> via_temp
            | kOpAsr \<Rightarrow> via_temp
            | kOpRor \<Rightarrow> via_temp
            | kOpAdd \<Rightarrow> OpRegReg h op r_dest r_src1
            | kOpOr \<Rightarrow> OpRegReg h op r_dest r_src1
            | kOpAdc \<Rightarrow> OpRegReg h op r_dest r_src1
            | kOpAnd \<Rightarrow> OpRegReg h op r_dest r_src1
            | kOpXor \<Rightarrow> OpRegReg h op r_dest r_src1
            | _ \<Rightarrow> LOG_FATAL))"

definition OpRegRegImm ::
  "x86_lir_h \<Rightarrow> OpKind \<Rightarrow> cint \<Rightarrow> cint \<Rightarrow> cint \<Rightarrow> LIR_ptr codegen" where
  "OpRegRegImm h op r_dest r_src val =
     (if op = kOpMul then
        NewLIR3 (if IS_SIMM8 val then kX86Imul32RRI8 else kX86Imul32RRI) r_dest r_src val
      else if op = kOpAnd \<and> val = 255 \<and> sint r_src < 4 then
        NewLIR2 kX86Movzx8RR r_dest r_src
      else if op = kOpAnd \<and> val = 65535 then
        NewLIR2 kX86Movzx16RR r_dest r_src
      else if r_dest \<noteq> r_src then
        (if False \<and> op = kOpLsl \<and> 0 \<le> sint val \<and> sint val \<le> 3 then
           NewLIR5 kX86Lea32RA r_dest (r5sib_no_base h) r_src val 0
         else if op = kOpAdd then
           NewLIR5 kX86Lea32RA r_dest r_src (r4sib_no_index h) 0 val
         else
           cg_then (OpRegCopy h r_dest r_src) (OpRegImm h op r_dest val))
      else OpRegImm h op r_dest val)"

section \<open>Addressing-Mode Engine\<close>

text \<open>
  The \<open>switch\<close> over the size (\<open>opsize\<close> below) sets the locals \<open>opcode\<close>, \<open>pair\<close>, \<open>is64bit\<close>,
  \<open>r_dest\<close> and \<open>r_dest_hi\<close>; the model computes them as a tuple, and the code after the
  \<open>switch\<close> receives it. A \<open>LIR*\<close> that may be \<open>NULL\<close> is an option.
\<close>

definition LoadBaseIndexedDisp ::
  "x86_lir_h \<Rightarrow> cint \<Rightarrow> cint \<Rightarrow> cint \<Rightarrow> cint \<Rightarrow> cint \<Rightarrow> cint \<Rightarrow> OpSize \<Rightarrow> cint
     \<Rightarrow> LIR_ptr codegen" where
  "LoadBaseIndexedDisp h rBase r_index scale displacement r_dest r_dest_hi opsize s_reg =
     (let is_array = (r_index \<noteq> INVALID_REG h);
          wide =
            cg_bind
              (if X86_FPREG h r_dest then
                 cg_bind
                   (if X86_SINGLEREG h r_dest then
                      cg_then (DCHECK (X86_FPREG h r_dest_hi))
                        (cg_then (DCHECK (r_dest = r_dest_hi - 1))
                           (cg_return (S2d h r_dest r_dest_hi)))
                    else cg_return r_dest)
                   (\<lambda>r_dest.
                      cg_return
                        (if is_array then kX86MovsdRA else kX86MovsdRM, False,
                         r_dest, r_dest + 1))
               else
                 cg_return (if is_array then kX86Mov32RA else kX86Mov32RM, True,
                            r_dest, r_dest_hi))
              (\<lambda>(opc, pair, r_dest, r_dest_hi).
                 cg_then (DCHECK (displacement AND 3 = 0))
                   (cg_return (opc, pair, True, r_dest, r_dest_hi)));
          word =
            cg_bind
              (if X86_FPREG h r_dest then
                 cg_then (DCHECK (X86_SINGLEREG h r_dest))
                   (cg_return (if is_array then kX86MovssRA else kX86MovssRM))
               else cg_return (if is_array then kX86Mov32RA else kX86Mov32RM))
              (\<lambda>opc.
                 cg_then (DCHECK (displacement AND 3 = 0))
                   (cg_return (opc, False, False, r_dest, r_dest_hi)))
      in cg_bind
           (case opsize of
              kLong \<Rightarrow> wide
            | kDouble \<Rightarrow> wide
            | kWord \<Rightarrow> word
            | kSingle \<Rightarrow> word
            | kUnsignedHalf \<Rightarrow>
                cg_then (DCHECK (displacement AND 1 = 0))
                  (cg_return (if is_array then kX86Movzx16RA else kX86Movzx16RM,
                              False, False, r_dest, r_dest_hi))
            | kSignedHalf \<Rightarrow>
                cg_then (DCHECK (displacement AND 1 = 0))
                  (cg_return (if is_array then kX86Movsx16RA else kX86Movsx16RM,
                              False, False, r_dest, r_dest_hi))
            | kUnsignedByte \<Rightarrow>
                cg_return (if is_array then kX86Movzx8RA else kX86Movzx8RM,
                           False, False, r_dest, r_dest_hi)
            | kSignedByte \<Rightarrow>
                cg_return (if is_array then kX86Movsx8RA else kX86Movsx8RM,
                           False, False, r_dest, r_dest_hi))
           (\<lambda>(opc, pair, is64bit, r_dest, r_dest_hi).
              if \<not> is_array then
                cg_bind
                  (if \<not> pair then
                     cg_bind (NewLIR3 opc r_dest rBase (displacement + LOWORD_OFFSET h))
                       (\<lambda>load. cg_return (load, None))
                   else if rBase = r_dest then
                     cg_bind (NewLIR3 opc r_dest_hi rBase (displacement + HIWORD_OFFSET h))
                       (\<lambda>load2.
                          cg_bind (NewLIR3 opc r_dest rBase (displacement + LOWORD_OFFSET h))
                            (\<lambda>load. cg_return (load, Some load2)))
                   else
                     cg_bind (NewLIR3 opc r_dest rBase (displacement + LOWORD_OFFSET h))
                       (\<lambda>load.
                          cg_bind
                            (NewLIR3 opc r_dest_hi rBase (displacement + HIWORD_OFFSET h))
                            (\<lambda>load2. cg_return (load, Some load2))))
                  (\<lambda>(load, load2).
                     cg_then
                       (if rBase = rX86_SP h then
                          cg_then
                            (AnnotateDalvikRegAccess load
                               (signed_drop_bit 2
                                  (displacement + (if pair then LOWORD_OFFSET h else 0)))
                               True is64bit)
                            (if pair then
                               (case load2 of
                                  Some l2 \<Rightarrow>
                                    AnnotateDalvikRegAccess l2
                                      (signed_drop_bit 2 (displacement + HIWORD_OFFSET h))
                                      True is64bit
                                | None \<Rightarrow> CHECK False)
                             else cg_return ())
                        else cg_return ())
                       (cg_return load))
              else
                (if \<not> pair then
                   NewLIR5 opc r_dest rBase r_index scale (displacement + LOWORD_OFFSET h)
                 else if rBase = r_dest then
                   cg_then
                     (NewLIR5 opc r_dest_hi rBase r_index scale
                        (displacement + HIWORD_OFFSET h))
                     (NewLIR5 opc r_dest rBase r_index scale
                        (displacement + LOWORD_OFFSET h))
                 else
                   cg_bind
                     (NewLIR5 opc r_dest rBase r_index scale
                        (displacement + LOWORD_OFFSET h))
                     (\<lambda>load.
                        cg_then
                          (NewLIR5 opc r_dest_hi rBase r_index scale
                             (displacement + HIWORD_OFFSET h))
                          (cg_return load)))))"

definition LoadBaseIndexed ::
  "x86_lir_h \<Rightarrow> cint \<Rightarrow> cint \<Rightarrow> cint \<Rightarrow> cint \<Rightarrow> OpSize \<Rightarrow> LIR_ptr codegen" where
  "LoadBaseIndexed h rBase r_index r_dest scale opsize =
     LoadBaseIndexedDisp h rBase r_index scale 0 r_dest (INVALID_REG h) opsize (INVALID_SREG h)"

definition LoadBaseDisp ::
  "x86_lir_h \<Rightarrow> cint \<Rightarrow> cint \<Rightarrow> cint \<Rightarrow> OpSize \<Rightarrow> cint \<Rightarrow> LIR_ptr codegen" where
  "LoadBaseDisp h rBase displacement r_dest opsize s_reg =
     LoadBaseIndexedDisp h rBase (INVALID_REG h) 0 displacement r_dest (INVALID_REG h) opsize s_reg"

definition LoadBaseDispWide ::
  "x86_lir_h \<Rightarrow> cint \<Rightarrow> cint \<Rightarrow> cint \<Rightarrow> cint \<Rightarrow> cint \<Rightarrow> LIR_ptr codegen" where
  "LoadBaseDispWide h rBase displacement r_dest_lo r_dest_hi s_reg =
     LoadBaseIndexedDisp h rBase (INVALID_REG h) 0 displacement r_dest_lo r_dest_hi kLong s_reg"

definition StoreBaseIndexedDisp ::
  "x86_lir_h \<Rightarrow> cint \<Rightarrow> cint \<Rightarrow> cint \<Rightarrow> cint \<Rightarrow> cint \<Rightarrow> cint \<Rightarrow> OpSize \<Rightarrow> cint
     \<Rightarrow> LIR_ptr codegen" where
  "StoreBaseIndexedDisp h rBase r_index scale displacement r_src r_src_hi opsize s_reg =
     (let is_array = (r_index \<noteq> INVALID_REG h);
          wide =
            cg_bind
              (if X86_FPREG h r_src then
                 cg_bind
                   (if X86_SINGLEREG h r_src then
                      cg_then (DCHECK (X86_FPREG h r_src_hi))
                        (cg_then (DCHECK (r_src = r_src_hi - 1))
                           (cg_return (S2d h r_src r_src_hi)))
                    else cg_return r_src)
                   (\<lambda>r_src.
                      cg_return
                        (if is_array then kX86MovsdAR else kX86MovsdMR, False,
                         r_src, r_src + 1))
               else
                 cg_return (if is_array then kX86Mov32AR else kX86Mov32MR, True,
                            r_src, r_src_hi))
              (\<lambda>(opc, pair, r_src, r_src_hi).
                 cg_then (DCHECK (displacement AND 3 = 0))
                   (cg_return (opc, pair, True, r_src, r_src_hi)));
          word =
            cg_bind
              (if X86_FPREG h r_src then
                 cg_then (DCHECK (X86_SINGLEREG h r_src))
                   (cg_return (if is_array then kX86MovssAR else kX86MovssMR))
               else cg_return (if is_array then kX86Mov32AR else kX86Mov32MR))
              (\<lambda>opc.
                 cg_then (DCHECK (displacement AND 3 = 0))
                   (cg_return (opc, False, False, r_src, r_src_hi)));
          half =
            cg_then (DCHECK (displacement AND 1 = 0))
              (cg_return (if is_array then kX86Mov16AR else kX86Mov16MR,
                          False, False, r_src, r_src_hi));
          byte =
            cg_return (if is_array then kX86Mov8AR else kX86Mov8MR,
                       False, False, r_src, r_src_hi)
      in cg_bind
           (case opsize of
              kLong \<Rightarrow> wide
            | kDouble \<Rightarrow> wide
            | kWord \<Rightarrow> word
            | kSingle \<Rightarrow> word
            | kUnsignedHalf \<Rightarrow> half
            | kSignedHalf \<Rightarrow> half
            | kUnsignedByte \<Rightarrow> byte
            | kSignedByte \<Rightarrow> byte)
           (\<lambda>(opc, pair, is64bit, r_src, r_src_hi).
              if \<not> is_array then
                cg_bind
                  (if \<not> pair then
                     cg_bind (NewLIR3 opc rBase (displacement + LOWORD_OFFSET h) r_src)
                       (\<lambda>store. cg_return (store, None))
                   else
                     cg_bind (NewLIR3 opc rBase (displacement + LOWORD_OFFSET h) r_src)
                       (\<lambda>store.
                          cg_bind
                            (NewLIR3 opc rBase (displacement + HIWORD_OFFSET h) r_src_hi)
                            (\<lambda>store2. cg_return (store, Some store2))))
                  (\<lambda>(store, store2).
                     cg_then
                       (if rBase = rX86_SP h then
                          cg_then
                            (AnnotateDalvikRegAccess store
                               (signed_drop_bit 2
                                  (displacement + (if pair then LOWORD_OFFSET h else 0)))
                               False is64bit)
                            (if pair then
                               (case store2 of
                                  Some s2 \<Rightarrow>
                                    AnnotateDalvikRegAccess s2
                                      (signed_drop_bit 2 (displacement + HIWORD_OFFSET h))
                                      False is64bit
                                | None \<Rightarrow> CHECK False)
                             else cg_return ())
                        else cg_return ())
                       (cg_return store))
              else
                (if \<not> pair then
                   NewLIR5 opc rBase r_index scale (displacement + LOWORD_OFFSET h) r_src
                 else
                   cg_bind
                     (NewLIR5 opc rBase r_index scale (displacement + LOWORD_OFFSET h) r_src)
                     (\<lambda>store.
                        cg_then
                          (NewLIR5 opc rBase r_index scale
                             (displacement + HIWORD_OFFSET h) r_src_hi)
                          (cg_return store)))))"

definition StoreBaseIndexed ::
  "x86_lir_h \<Rightarrow> cint \<Rightarrow> cint \<Rightarrow> cint \<Rightarrow> cint \<Rightarrow> OpSize \<Rightarrow> LIR_ptr codegen" where
  "StoreBaseIndexed h rBase r_index r_src scale opsize =
     StoreBaseIndexedDisp h rBase r_index scale 0 r_src (INVALID_REG h) opsize (INVALID_SREG h)"

definition StoreBaseDisp ::
  "x86_lir_h \<Rightarrow> cint \<Rightarrow> cint \<Rightarrow> cint \<Rightarrow> OpSize \<Rightarrow> LIR_ptr codegen" where
  "StoreBaseDisp h rBase displacement r_src opsize =
     StoreBaseIndexedDisp h rBase (INVALID_REG h) 0 displacement r_src (INVALID_REG h) opsize
       (INVALID_SREG h)"

definition StoreBaseDispWide ::
  "x86_lir_h \<Rightarrow> cint \<Rightarrow> cint \<Rightarrow> cint \<Rightarrow> cint \<Rightarrow> LIR_ptr codegen" where
  "StoreBaseDispWide h rBase displacement r_src_lo r_src_hi =
     StoreBaseIndexedDisp h rBase (INVALID_REG h) 0 displacement r_src_lo r_src_hi kLong
       (INVALID_SREG h)"

section \<open>Observing a call\<close>

text \<open>
  What a call emitted: the opcode and operands of the records the call appended to the
  stream, in order, provided the call returned and left the earlier records of the
  stream as they were; \<open>None\<close> after a fault.
\<close>

definition emitted ::
  "CompilationUnit \<Rightarrow> fault + 'a \<times> CompilationUnit \<Rightarrow> (X86OpCode \<times> cint list) list option" where
  "emitted cu r =
     (case r of
        Inl e \<Rightarrow> None
      | Inr (x, cu') \<Rightarrow>
          if take (length (lir_insns cu)) (lir_insns cu') = lir_insns cu
          then Some (map (\<lambda>l. (opcode l, operands l))
                       (drop (length (lir_insns cu)) (lir_insns cu')))
          else None)"

text \<open>The allocator's count of available temporaries after a call that returned.\<close>

definition temps_after :: "fault + 'a \<times> CompilationUnit \<Rightarrow> nat option" where
  "temps_after r = (case r of Inl e \<Rightarrow> None | Inr (x, cu') \<Rightarrow> Some (available_temps cu'))"

text \<open>
  The instruction that moves one 32-bit half of a general-purpose register pair: the
  plain base+displacement form when there is no index register, the indexed form
  otherwise.
\<close>

definition load_half ::
  "x86_lir_h \<Rightarrow> cint \<Rightarrow> cint \<Rightarrow> cint \<Rightarrow> cint \<Rightarrow> cint \<Rightarrow> X86OpCode \<times> cint list" where
  "load_half h rBase r_index scale disp r =
     (if r_index = INVALID_REG h then (kX86Mov32RM, [r, rBase, disp])
      else (kX86Mov32RA, [r, rBase, r_index, scale, disp]))"

definition store_half ::
  "x86_lir_h \<Rightarrow> cint \<Rightarrow> cint \<Rightarrow> cint \<Rightarrow> cint \<Rightarrow> cint \<Rightarrow> X86OpCode \<times> cint list" where
  "store_half h rBase r_index scale disp r =
     (if r_index = INVALID_REG h then (kX86Mov32MR, [rBase, disp, r])
      else (kX86Mov32AR, [rBase, r_index, scale, disp, r]))"

text \<open>A compilation unit with an empty stream and three temporaries, for concrete runs.\<close>

definition cu0 :: CompilationUnit where
  "cu0 = \<lparr> current_dalvik_offset = 0, lir_insns = [], free_temps = [0, 1, 2] \<rparr>"

section \<open>Auxiliary facts\<close>

text \<open>The sequencing and stream-building primitives, unfolded together.\<close>

lemmas cg_simps =
  cg_return_def cg_bind_def cg_then_def LOG_FATAL_def CHECK_def DCHECK_def
  RawLIR_def AppendLIR_def NewLIR_def NewLIR1_def NewLIR2_def NewLIR3_def NewLIR5_def
  AnnotateDalvikRegAccess_def AllocTemp_def FreeTemp_def

text \<open>The alignment tests of the source, read as divisibility of the signed displacement.\<close>

lemma and_3_eq_0_iff: "((d::cint) AND 3 = 0) = (4 dvd sint d)"
proof -
  have "d AND 3 = take_bit 2 d"
    by (simp add: take_bit_eq_mask mask_eq_exp_minus_1)
  moreover have "(take_bit 2 d = 0) = (take_bit 2 (uint d) = 0)"
    by (metis unsigned_take_bit_eq uint_0_iff)
  moreover have "take_bit 2 (sint d) = take_bit 2 (uint d)"
    by (simp add: sint_uint take_bit_signed_take_bit)
  moreover have "(take_bit 2 (sint d) = 0) = (4 dvd sint d)"
    using take_bit_eq_0_iff [of 2 "sint d"] by simp
  ultimately show ?thesis by simp
qed

lemma and_1_eq_0_iff: "((d::cint) AND 1 = 0) = (2 dvd sint d)"
proof -
  have "d AND 1 = take_bit 1 d"
    by (simp add: take_bit_eq_mask mask_eq_exp_minus_1)
  moreover have "(take_bit 1 d = 0) = (take_bit 1 (uint d) = 0)"
    by (metis unsigned_take_bit_eq uint_0_iff)
  moreover have "take_bit 1 (sint d) = take_bit 1 (uint d)"
  proof -
    have "sint d = signed_take_bit 31 (uint d)"
      by (simp add: sint_uint)
    moreover have "take_bit 1 (signed_take_bit 31 (uint d)) = take_bit 1 (uint d)"
      by (rule take_bit_signed_take_bit) simp
    ultimately show ?thesis by (simp only:)
  qed
  moreover have "(take_bit 1 (sint d) = 0) = (2 dvd sint d)"
    using take_bit_eq_0_iff [of 1 "sint d"] by simp
  ultimately show ?thesis by (simp only:)
qed

section \<open>Constant Materializer: properties\<close>

text \<open>
  Claim C9. Materializing the value 0 into a register of any class emits exactly one
  instruction, the destination xor-ed with itself: the packed floating xor for a
  floating destination, the 32-bit xor otherwise.
\<close>

theorem zero_is_single_self_xor:
  "emitted cu (LoadConstantNoClobber h r_dest 0 cu) =
     Some [(if X86_FPREG h r_dest then kX86XorpsRR else kX86Xor32RR, [r_dest, r_dest])]"
  by (simp add: emitted_def LoadConstantNoClobber_def cg_simps)

theorem zero_is_single_self_xor_witness:
  "emitted cu0 (LoadConstantNoClobber ia32 3 0 cu0) = Some [(kX86Xor32RR, [3, 3])] \<and>
   emitted cu0 (LoadConstantNoClobber ia32 33 0 cu0) = Some [(kX86XorpsRR, [33, 33])]"
  using zero_is_single_self_xor [of cu0 ia32 3] zero_is_single_self_xor [of cu0 ia32 33]
  by (simp add: ia32_def)

text \<open>
  Claim C7. Materializing a non-zero value into a floating (single) destination borrows
  the temporary \<open>t\<close> that the allocator lends, builds the value in it, moves it into
  the destination and returns \<open>t\<close> to the allocator: after the call the count of
  available temporaries, and the pool itself, are what they were before it.
\<close>

theorem float_temp_released:
  assumes "X86_FPREG h r_dest" and "X86_SINGLEREG h r_dest" and "val \<noteq> 0"
    and "free_temps cu = t # ts"
  shows
    "emitted cu (LoadConstantNoClobber h r_dest val cu) =
       Some [(kX86Mov32RI, [t, val]), (kX86MovdxrRR, [r_dest, t])] \<and>
     temps_after (LoadConstantNoClobber h r_dest val cu) = Some (available_temps cu) \<and>
     (\<exists>res cu'. LoadConstantNoClobber h r_dest val cu = Inr (res, cu') \<and>
        free_temps cu' = free_temps cu)"
  using assms
  by (simp add: emitted_def temps_after_def available_temps_def LoadConstantNoClobber_def
      cg_simps)

theorem float_temp_released_witness:
  "emitted cu0 (LoadConstantNoClobber ia32 33 7 cu0) =
     Some [(kX86Mov32RI, [0, 7]), (kX86MovdxrRR, [33, 0])] \<and>
   temps_after (LoadConstantNoClobber ia32 33 7 cu0) = Some 3"
proof -
  have "X86_FPREG ia32 33" and "X86_SINGLEREG ia32 33" and "(7::cint) \<noteq> 0"
    and "free_temps cu0 = 0 # [1, 2]"
    by (simp_all add: ia32_def cu0_def)
  from float_temp_released [OF this] show ?thesis
    by (simp add: available_temps_def cu0_def)
qed

text \<open>
  Claim C3, as amended. Materializing a 64-bit constant whose low half is non-zero and
  whose high half is zero: into a floating destination, only the low half is
  materialized (through the borrowed temporary), with no shift and no merge; into a
  general-purpose pair, the low half is materialized and the high register is cleared
  by one self-xor.
\<close>

theorem wide_zero_high_half:
  assumes "val_lo \<noteq> 0"
  shows
    "(X86_FPREG h r_dest_lo \<and> X86_SINGLEREG h r_dest_lo \<and> X86_FPREG h r_dest_hi \<and>
      free_temps cu = t # ts \<longrightarrow>
        emitted cu (LoadConstantValueWide h r_dest_lo r_dest_hi val_lo 0 cu) =
          Some [(kX86Mov32RI, [t, val_lo]), (kX86MovdxrRR, [r_dest_lo, t])]) \<and>
     (\<not> X86_FPREG h r_dest_lo \<longrightarrow>
        emitted cu (LoadConstantValueWide h r_dest_lo r_dest_hi val_lo 0 cu) =
          Some [(kX86Mov32RI, [r_dest_lo, val_lo]),
                (if X86_FPREG h r_dest_hi then kX86XorpsRR else kX86Xor32RR,
                 [r_dest_hi, r_dest_hi])])"
  using assms
  by (auto simp add: emitted_def LoadConstantValueWide_def LoadConstantNoClobber_def cg_simps)

theorem wide_zero_high_half_witness:
  "emitted cu0 (LoadConstantValueWide ia32 32 33 5 0 cu0) =
     Some [(kX86Mov32RI, [0, 5]), (kX86MovdxrRR, [32, 0])] \<and>
   emitted cu0 (LoadConstantValueWide ia32 0 1 5 0 cu0) =
     Some [(kX86Mov32RI, [0, 5]), (kX86Xor32RR, [1, 1])]"
proof -
  have nz: "(5::cint) \<noteq> 0" by simp
  show ?thesis
    using wide_zero_high_half [OF nz, of ia32 32 33 cu0 0 "[1, 2]"]
      wide_zero_high_half [OF nz, of ia32 0 1 cu0 0 "[1, 2]"]
    by (simp add: ia32_def cu0_def)
qed

text \<open>
  The claim that only the low half is materialized for every register class fails for a
  general-purpose pair: the call emits the clearing of the high register after the
  instruction that materializing the low half alone emits.
\<close>

theorem wide_zero_high_half_counterexample:
  "emitted cu0 (LoadConstantValueWide ia32 0 1 5 0 cu0) =
     Some [(kX86Mov32RI, [0, 5]), (kX86Xor32RR, [1, 1])] \<and>
   emitted cu0 (LoadConstantNoClobber ia32 0 5 cu0) = Some [(kX86Mov32RI, [0, 5])] \<and>
   emitted cu0 (LoadConstantValueWide ia32 0 1 5 0 cu0) \<noteq>
     emitted cu0 (LoadConstantNoClobber ia32 0 5 cu0)"
  by (simp add: emitted_def LoadConstantValueWide_def LoadConstantNoClobber_def cg_simps
      ia32_def cu0_def)

section \<open>Opcode Selector: properties\<close>

text \<open>
  Claim C4. For add, or, adc, and, sub, xor and compare on a general-purpose register,
  the register-immediate selector chooses the short-immediate opcode exactly when the
  value lies in -128 .. 127, and the full-immediate opcode otherwise.
\<close>

theorem imm_width_selection:
  assumes "\<not> X86_FPREG h r"
  shows
    "emitted cu (OpRegImm h kOpAdd r v cu) =
       Some [(if - 128 \<le> sint v \<and> sint v \<le> 127 then kX86Add32RI8 else kX86Add32RI, [r, v])] \<and>
     emitted cu (OpRegImm h kOpOr r v cu) =
       Some [(if - 128 \<le> sint v \<and> sint v \<le> 127 then kX86Or32RI8 else kX86Or32RI, [r, v])] \<and>
     emitted cu (OpRegImm h kOpAdc r v cu) =
       Some [(if - 128 \<le> sint v \<and> sint v \<le> 127 then kX86Adc32RI8 else kX86Adc32RI, [r, v])] \<and>
     emitted cu (OpRegImm h kOpAnd r v cu) =
       Some [(if - 128 \<le> sint v \<and> sint v \<le> 127 then kX86And32RI8 else kX86And32RI, [r, v])] \<and>
     emitted cu (OpRegImm h kOpSub r v cu) =
       Some [(if - 128 \<le> sint v \<and> sint v \<le> 127 then kX86Sub32RI8 else kX86Sub32RI, [r, v])] \<and>
     emitted cu (OpRegImm h kOpXor r v cu) =
       Some [(if - 128 \<le> sint v \<and> sint v \<le> 127 then kX86Xor32RI8 else kX86Xor32RI, [r, v])] \<and>
     emitted cu (OpRegImm h kOpCmp r v cu) =
       Some [(if - 128 \<le> sint v \<and> sint v \<le> 127 then kX86Cmp32RI8 else kX86Cmp32RI, [r, v])]"
  using assms by (simp add: emitted_def OpRegImm_def IS_SIMM8_def cg_simps)

theorem imm_width_selection_witness:
  "\<not> X86_FPREG ia32 0 \<and>
   emitted cu0 (OpRegImm ia32 kOpAdd 0 127 cu0) = Some [(kX86Add32RI8, [0, 127])] \<and>
   emitted cu0 (OpRegImm ia32 kOpAdd 0 (- 128) cu0) = Some [(kX86Add32RI8, [0, - 128])] \<and>
   emitted cu0 (OpRegImm ia32 kOpAdd 0 128 cu0) = Some [(kX86Add32RI, [0, 128])] \<and>
   emitted cu0 (OpRegImm ia32 kOpAdd 0 (- 129) cu0) = Some [(kX86Add32RI, [0, - 129])] \<and>
   emitted cu0 (OpRegImm ia32 kOpCmp 0 127 cu0) = Some [(kX86Cmp32RI8, [0, 127])] \<and>
   emitted cu0 (OpRegImm ia32 kOpCmp 0 128 cu0) = Some [(kX86Cmp32RI, [0, 128])]"
proof -
  have gp: "\<not> X86_FPREG ia32 0" by (simp add: ia32_def)
  show ?thesis
    using gp imm_width_selection [OF gp, of cu0 127] imm_width_selection [OF gp, of cu0 "- 128"]
      imm_width_selection [OF gp, of cu0 128] imm_width_selection [OF gp, of cu0 "- 129"]
    by simp
qed

text \<open>
  Claim C2, as amended. A move immediate is what the Constant Materializer emits, with
  no test of the immediate's width: the self-xor for 0 and the full 32-bit move
  otherwise. A multiply immediate uses the three-operand form, and it does choose
  between the short and the full immediate opcode by the 8-bit test \<open>IS_SIMM8\<close>,
  in \<open>OpRegImm\<close> and in \<open>OpRegRegImm\<close> alike.
\<close>

theorem mov_mul_immediate:
  assumes "\<not> X86_FPREG h r"
  shows
    "OpRegImm h kOpMov r v cu = LoadConstantNoClobber h r v cu \<and>
     emitted cu (OpRegImm h kOpMov r v cu) =
       Some [if v = 0 then (kX86Xor32RR, [r, r]) else (kX86Mov32RI, [r, v])] \<and>
     emitted cu (OpRegImm h kOpMul r v cu) =
       Some [(if IS_SIMM8 v then kX86Imul32RRI8 else kX86Imul32RRI,
              [r, r, v])] \<and>
     emitted cu (OpRegRegImm h kOpMul r_dest r_src v cu) =
       Some [(if IS_SIMM8 v then kX86Imul32RRI8 else kX86Imul32RRI,
              [r_dest, r_src, v])]"
  using assms
  by (simp add: emitted_def OpRegImm_def OpRegRegImm_def LoadConstantNoClobber_def cg_simps)

theorem mov_mul_immediate_witness:
  "emitted cu0 (OpRegImm ia32 kOpMov 0 5 cu0) = Some [(kX86Mov32RI, [0, 5])] \<and>
   emitted cu0 (OpRegImm ia32 kOpMul 0 5 cu0) = Some [(kX86Imul32RRI8, [0, 0, 5])] \<and>
   emitted cu0 (OpRegRegImm ia32 kOpMul 2 3 1000 cu0) = Some [(kX86Imul32RRI, [2, 3, 1000])]"
proof -
  have gp: "\<not> X86_FPREG ia32 0" by (simp add: ia32_def)
  show ?thesis
    using mov_mul_immediate [OF gp, of 5 cu0 2 3, THEN conjunct2]
      mov_mul_immediate [OF gp, of 1000 cu0 2 3, THEN conjunct2]
    by (simp add: IS_SIMM8_def)
qed

text \<open>
  The claim that the multiply form is chosen without the 8-bit test fails: the opcode
  for the immediate 5 is the short form and the opcode for 1000 is the full form.
\<close>

theorem mov_mul_immediate_counterexample:
  "emitted cu0 (OpRegImm ia32 kOpMul 0 5 cu0) = Some [(kX86Imul32RRI8, [0, 0, 5])] \<and>
   emitted cu0 (OpRegImm ia32 kOpMul 0 1000 cu0) = Some [(kX86Imul32RRI, [0, 0, 1000])] \<and>
   emitted cu0 (OpRegRegImm ia32 kOpMul 2 3 5 cu0) = Some [(kX86Imul32RRI8, [2, 3, 5])] \<and>
   emitted cu0 (OpRegRegImm ia32 kOpMul 2 3 1000 cu0) = Some [(kX86Imul32RRI, [2, 3, 1000])]"
  by (simp add: emitted_def OpRegImm_def OpRegRegImm_def IS_SIMM8_def cg_simps ia32_def
      cu0_def)

text \<open>
  Claim C10. A register-register shift (left, logical right, arithmetic right) is
  emitted only when the count register is \<open>rCX\<close>; with any other count register the
  call ends in the fatal check failure and emits nothing.
\<close>

theorem shift_count_must_be_cx:
  "(if r_src2 = rCX h
    then emitted cu (OpRegReg h kOpLsl r_dest_src1 r_src2 cu) =
           Some [(kX86Sal32RC, [r_dest_src1, r_src2])]
    else OpRegReg h kOpLsl r_dest_src1 r_src2 cu = Inl InvariantViolation) \<and>
   (if r_src2 = rCX h
    then emitted cu (OpRegReg h kOpLsr r_dest_src1 r_src2 cu) =
           Some [(kX86Shr32RC, [r_dest_src1, r_src2])]
    else OpRegReg h kOpLsr r_dest_src1 r_src2 cu = Inl InvariantViolation) \<and>
   (if r_src2 = rCX h
    then emitted cu (OpRegReg h kOpAsr r_dest_src1 r_src2 cu) =
           Some [(kX86Sar32RC, [r_dest_src1, r_src2])]
    else OpRegReg h kOpAsr r_dest_src1 r_src2 cu = Inl InvariantViolation)"
  by (simp add: emitted_def OpRegReg_def cg_simps)

theorem shift_count_must_be_cx_witness:
  "emitted cu0 (OpRegReg ia32 kOpLsl 0 1 cu0) = Some [(kX86Sal32RC, [0, 1])] \<and>
   OpRegReg ia32 kOpLsl 0 2 cu0 = Inl InvariantViolation \<and>
   OpRegReg ia32 kOpLsr 0 2 cu0 = Inl InvariantViolation \<and>
   OpRegReg ia32 kOpAsr 0 2 cu0 = Inl InvariantViolation"
  using shift_count_must_be_cx [of 1 ia32 cu0 0] shift_count_must_be_cx [of 2 ia32 cu0 0]
  by (simp add: ia32_def)

section \<open>Three-Operand Synthesizer: properties\<close>

text \<open>
  Claim C5. For an add whose destination is neither source: when the sources differ the
  result is one address computation and nothing else (with the sources swapped when the
  first one is \<open>rBP\<close>, which cannot be the base); when the sources are the same
  general-purpose register the result is the copy of the source into the destination
  followed by the shift left of the destination by 1.
\<close>

theorem add_non_aliasing:
  assumes "r_dest \<noteq> r_src1" and "r_dest \<noteq> r_src2"
  shows
    "(r_src1 \<noteq> r_src2 \<longrightarrow>
        emitted cu (OpRegRegReg h kOpAdd r_dest r_src1 r_src2 cu) =
          Some [(kX86Lea32RA,
                 if r_src1 \<noteq> rBP h then [r_dest, r_src1, r_src2, 0, 0]
                 else [r_dest, r_src2, r_src1, 0, 0])]) \<and>
     (r_src1 = r_src2 \<and> \<not> X86_FPREG h r_dest \<and> \<not> X86_FPREG h r_src1 \<longrightarrow>
        emitted cu (OpRegRegReg h kOpAdd r_dest r_src1 r_src2 cu) =
          Some [(kX86Mov32RR, [r_dest, r_src1]), (kX86Sal32RI, [r_dest, 1])])"
  using assms
  by (auto simp add: emitted_def OpRegRegReg_def OpRegCopy_def OpRegImm_def cg_simps)

theorem add_non_aliasing_witness:
  "emitted cu0 (OpRegRegReg ia32 kOpAdd 0 3 2 cu0) = Some [(kX86Lea32RA, [0, 3, 2, 0, 0])] \<and>
   emitted cu0 (OpRegRegReg ia32 kOpAdd 0 5 2 cu0) = Some [(kX86Lea32RA, [0, 2, 5, 0, 0])] \<and>
   emitted cu0 (OpRegRegReg ia32 kOpAdd 0 3 3 cu0) =
     Some [(kX86Mov32RR, [0, 3]), (kX86Sal32RI, [0, 1])]"
  using add_non_aliasing [of 0 3 2 cu0 ia32] add_non_aliasing [of 0 5 2 cu0 ia32]
    add_non_aliasing [of 0 3 3 cu0 ia32]
  by (simp add: ia32_def)

text \<open>
  Claim C6, as amended. For a subtract whose destination is the second source and not
  the first, the result is the negate of the destination followed by the add of the
  first source into it.
\<close>

theorem sub_dest_is_src2:
  assumes "r_dest = r_src2" and "r_dest \<noteq> r_src1"
  shows "emitted cu (OpRegRegReg h kOpSub r_dest r_src1 r_src2 cu) =
           Some [(kX86Neg32R, [r_dest]), (kX86Add32RR, [r_dest, r_src1])]"
  using assms
  by (simp add: emitted_def OpRegRegReg_def OpReg_def OpRegReg_def cg_simps)

theorem sub_dest_is_src2_witness:
  "emitted cu0 (OpRegRegReg ia32 kOpSub 2 0 2 cu0) =
     Some [(kX86Neg32R, [2]), (kX86Add32RR, [2, 0])]"
  using sub_dest_is_src2 [of 2 2 0 cu0 ia32] by simp

text \<open>
  Without the condition that the destination differs from the first source the
  statement fails: for a subtract of a register from itself into itself the aliasing
  test on the first source comes first, and one register-register subtract is emitted.
\<close>

theorem sub_dest_is_src2_counterexample:
  "emitted cu0 (OpRegRegReg ia32 kOpSub 2 2 2 cu0) = Some [(kX86Sub32RR, [2, 2])] \<and>
   emitted cu0 (OpRegRegReg ia32 kOpSub 2 2 2 cu0) \<noteq>
     Some [(kX86Neg32R, [2]), (kX86Add32RR, [2, 2])]"
  by (simp add: emitted_def OpRegRegReg_def OpRegReg_def cg_simps cu0_def)

section \<open>Addressing-Mode Engine: properties\<close>

text \<open>
  Claim C1, as amended. For a 64-bit access through a general-purpose register pair at
  an aligned displacement, plain or indexed: a load emits the high half before the low
  half when the base register is the low destination register, and the low half first
  otherwise; a store emits the low half before the high half whatever the base
  register is.
\<close>

theorem pair_halves_order:
  assumes "opsize = kLong \<or> opsize = kDouble" and "\<not> X86_FPREG h r_lo"
    and "4 dvd sint displacement"
  shows
    "emitted cu
       (LoadBaseIndexedDisp h rBase r_index scale displacement r_lo r_hi opsize s_reg cu) =
       Some (if rBase = r_lo
             then [load_half h rBase r_index scale (displacement + HIWORD_OFFSET h) r_hi,
                   load_half h rBase r_index scale (displacement + LOWORD_OFFSET h) r_lo]
             else [load_half h rBase r_index scale (displacement + LOWORD_OFFSET h) r_lo,
                   load_half h rBase r_index scale (displacement + HIWORD_OFFSET h) r_hi]) \<and>
     emitted cu
       (StoreBaseIndexedDisp h rBase r_index scale displacement r_lo r_hi opsize s_reg cu) =
       Some [store_half h rBase r_index scale (displacement + LOWORD_OFFSET h) r_lo,
             store_half h rBase r_index scale (displacement + HIWORD_OFFSET h) r_hi] \<and>
     emitted cu (LoadBaseDispWide h rBase displacement r_lo r_hi s_reg cu) =
       Some (if rBase = r_lo
             then [(kX86Mov32RM, [r_hi, rBase, displacement + HIWORD_OFFSET h]),
                   (kX86Mov32RM, [r_lo, rBase, displacement + LOWORD_OFFSET h])]
             else [(kX86Mov32RM, [r_lo, rBase, displacement + LOWORD_OFFSET h]),
                   (kX86Mov32RM, [r_hi, rBase, displacement + HIWORD_OFFSET h])]) \<and>
     emitted cu (StoreBaseDispWide h rBase displacement r_lo r_hi cu) =
       Some [(kX86Mov32MR, [rBase, displacement + LOWORD_OFFSET h, r_lo]),
             (kX86Mov32MR, [rBase, displacement + HIWORD_OFFSET h, r_hi])]"
  using assms
  by (auto simp add: emitted_def LoadBaseIndexedDisp_def StoreBaseIndexedDisp_def
      LoadBaseDispWide_def StoreBaseDispWide_def cg_simps
      Let_def load_half_def store_half_def and_3_eq_0_iff nth_append list_update_append)

theorem pair_halves_order_witness:
  "emitted cu0 (LoadBaseIndexedDisp ia32 0 255 0 8 0 1 kLong (- 1) cu0) =
     Some [(kX86Mov32RM, [1, 0, 12]), (kX86Mov32RM, [0, 0, 8])] \<and>
   emitted cu0 (LoadBaseIndexedDisp ia32 3 255 0 8 0 1 kLong (- 1) cu0) =
     Some [(kX86Mov32RM, [0, 3, 8]), (kX86Mov32RM, [1, 3, 12])] \<and>
   emitted cu0 (LoadBaseIndexedDisp ia32 0 2 2 8 0 1 kLong (- 1) cu0) =
     Some [(kX86Mov32RA, [1, 0, 2, 2, 12]), (kX86Mov32RA, [0, 0, 2, 2, 8])] \<and>
   emitted cu0 (StoreBaseIndexedDisp ia32 3 255 0 8 0 1 kLong (- 1) cu0) =
     Some [(kX86Mov32MR, [3, 8, 0]), (kX86Mov32MR, [3, 12, 1])] \<and>
   emitted cu0 (LoadBaseDispWide ia32 0 8 0 1 (- 1) cu0) =
     Some [(kX86Mov32RM, [1, 0, 12]), (kX86Mov32RM, [0, 0, 8])]"
proof -
  have a: "kLong = kLong \<or> kLong = kDouble" and b: "\<not> X86_FPREG ia32 0"
    and c: "4 dvd sint (8::cint)"
    by (simp_all add: ia32_def)
  show ?thesis
    using pair_halves_order [OF a b c, of cu0 0 255 0 1 "- 1"]
      pair_halves_order [OF a b c, of cu0 3 255 0 1 "- 1"]
      pair_halves_order [OF a b c, of cu0 0 2 2 1 "- 1"]
    by (simp add: ia32_def load_half_def store_half_def)
qed

text \<open>
  The claim that stores follow the same rule as loads fails: a store whose base
  register is its low source register emits the low half first.
\<close>

theorem pair_halves_order_counterexample:
  "emitted cu0 (StoreBaseIndexedDisp ia32 0 255 0 8 0 1 kLong (- 1) cu0) =
     Some [(kX86Mov32MR, [0, 8, 0]), (kX86Mov32MR, [0, 12, 1])] \<and>
   emitted cu0 (StoreBaseIndexedDisp ia32 0 255 0 8 0 1 kLong (- 1) cu0) \<noteq>
     Some [(kX86Mov32MR, [0, 12, 1]), (kX86Mov32MR, [0, 8, 0])] \<and>
   emitted cu0 (StoreBaseDispWide ia32 0 8 0 1 cu0) =
     Some [(kX86Mov32MR, [0, 8, 0]), (kX86Mov32MR, [0, 12, 1])] \<and>
   emitted cu0 (StoreBaseIndexedDisp ia32 0 2 2 8 0 1 kLong (- 1) cu0) =
     Some [(kX86Mov32AR, [0, 2, 2, 8, 0]), (kX86Mov32AR, [0, 2, 2, 12, 1])]"
  by (simp add: emitted_def StoreBaseIndexedDisp_def StoreBaseDispWide_def cg_simps Let_def
      ia32_def cu0_def)

text \<open>
  Claim C8. A word- or single-width load or store, plain or indexed, whose displacement
  is not a multiple of 4, and a half-width one whose displacement is not a multiple
  of 2, ends in the invariant-violation fault: no instruction is emitted. The same holds
  through the plain wrappers \<open>LoadBaseDisp\<close> and \<open>StoreBaseDisp\<close>.
\<close>

theorem misaligned_access_faults:
  assumes "(opsize = kWord \<or> opsize = kSingle) \<and> \<not> 4 dvd sint displacement \<or>
           (opsize = kUnsignedHalf \<or> opsize = kSignedHalf) \<and> \<not> 2 dvd sint displacement"
  shows
    "LoadBaseIndexedDisp h rBase r_index scale displacement r_dest r_dest_hi opsize s_reg cu =
       Inl InvariantViolation \<and>
     StoreBaseIndexedDisp h rBase r_index scale displacement r_src r_src_hi opsize s_reg cu =
       Inl InvariantViolation \<and>
     LoadBaseDisp h rBase displacement r_dest opsize s_reg cu = Inl InvariantViolation \<and>
     StoreBaseDisp h rBase displacement r_src opsize cu = Inl InvariantViolation"
  using assms
  by (auto simp add: LoadBaseIndexedDisp_def StoreBaseIndexedDisp_def LoadBaseDisp_def
      StoreBaseDisp_def cg_simps Let_def and_3_eq_0_iff and_1_eq_0_iff)


theorem misaligned_access_faults_witness:
  "LoadBaseIndexedDisp ia32 3 255 0 2 0 255 kWord (- 1) cu0 = Inl InvariantViolation \<and>
   StoreBaseIndexedDisp ia32 3 255 0 2 0 255 kWord (- 1) cu0 = Inl InvariantViolation \<and>
   LoadBaseIndexedDisp ia32 3 2 2 2 0 255 kSingle (- 1) cu0 = Inl InvariantViolation \<and>
   StoreBaseIndexedDisp ia32 3 255 0 1 0 255 kSignedHalf (- 1) cu0 = Inl InvariantViolation \<and>
   LoadBaseDisp ia32 3 2 0 kWord (- 1) cu0 = Inl InvariantViolation \<and>
   StoreBaseDisp ia32 3 2 0 kWord cu0 = Inl InvariantViolation"
proof -
  have a: "(kWord = kWord \<or> kWord = kSingle) \<and> \<not> 4 dvd sint (2::cint) \<or>
           (kWord = kUnsignedHalf \<or> kWord = kSignedHalf) \<and> \<not> 2 dvd sint (2::cint)"
    by simp
  have b: "(kSingle = kWord \<or> kSingle = kSingle) \<and> \<not> 4 dvd sint (2::cint) \<or>
           (kSingle = kUnsignedHalf \<or> kSingle = kSignedHalf) \<and> \<not> 2 dvd sint (2::cint)"
    by simp
  have c: "(kSignedHalf = kWord \<or> kSignedHalf = kSingle) \<and> \<not> 4 dvd sint (1::cint) \<or>
           (kSignedHalf = kUnsignedHalf \<or> kSignedHalf = kSignedHalf) \<and>
             \<not> 2 dvd sint (1::cint)"
    by simp
  show ?thesis
    using misaligned_access_faults [OF a, of ia32 3 255 0 0 255 "- 1" cu0 0 255]
      misaligned_access_faults [OF b, of ia32 3 2 2 0 255 "- 1" cu0 0 255]
      misaligned_access_faults [OF c, of ia32 3 255 0 0 255 "- 1" cu0 0 255]
    by simp
qed

end
